theory Spec2Isabelle
  imports Main
begin

section \<open>The secrets resource of the polygon-edge provider\<close>

text \<open>
  The repository holds one resource, \<^verbatim>\<open>secretsResource\<close> in
  \<^verbatim>\<open>pkg/secrets/secrets_resource.go\<close>. Its methods are embedded here as functions on
  the response value they receive by pointer: each takes the response and returns the
  response as the method leaves it. The calls a method makes to the packages it imports
  (key generation, derivation, the state write, the debug log) are recorded, in order, in
  a list of events that is passed in and returned.
\<close>

subsection \<open>Values of the plugin framework\<close>

text \<open>
  \<^verbatim>\<open>types.String\<close>: a string attribute is null, unknown, or a known value;
  \<^verbatim>\<open>types.StringValue(s)\<close> builds the known one.
\<close>

datatype tf_String = StringNull | StringUnknown | StringValue string

text \<open>
  \<^verbatim>\<open>diag.Diagnostic\<close> with its severity, summary and detail, and the three methods of
  \<^verbatim>\<open>diag.Diagnostics\<close> the resource calls. \<^verbatim>\<open>Append\<close> skips a diagnostic that the
  collection already contains; \<^verbatim>\<open>AddError\<close> appends one error diagnostic;
  \<^verbatim>\<open>HasError\<close> holds when some diagnostic has the error severity.
\<close>

datatype diagnostic = ErrorDiagnostic string string | WarningDiagnostic string string

fun is_error :: "diagnostic \<Rightarrow> bool" where
  "is_error (ErrorDiagnostic summary detail) = True"
| "is_error (WarningDiagnostic summary detail) = False"

definition HasError :: "diagnostic list \<Rightarrow> bool" where
  "HasError diags = list_ex is_error diags"

fun Append :: "diagnostic list \<Rightarrow> diagnostic list \<Rightarrow> diagnostic list" where
  "Append diags [] = diags"
| "Append diags (d # ds) = Append (if d \<in> set diags then diags else diags @ [d]) ds"

definition AddError :: "diagnostic list \<Rightarrow> string \<Rightarrow> string \<Rightarrow> diagnostic list" where
  "AddError diags summary detail = Append diags [ErrorDiagnostic summary detail]"

text \<open>A Go \<^verbatim>\<open>error\<close> value; \<^verbatim>\<open>err.Error()\<close> is its message.\<close>

datatype go_error = errors_New string

fun Error :: "go_error \<Rightarrow> string" where
  "Error (errors_New msg) = msg"

subsection \<open>The data model\<close>

text \<open>\<^verbatim>\<open>secretsDataSourceModel\<close>, fields in the order of the struct.\<close>

record secretsDataSourceModel =
  ValidatorKeyEncoded :: tf_String
  ValidatorBLSKeyEncoded :: tf_String
  NetworkKeyEncoded :: tf_String
  Address :: tf_String
  BLSPubkey :: tf_String
  NodeID :: tf_String

text \<open>
  \<^verbatim>\<open>tfsdk.State\<close>: the raw value stored for the resource, \<open>None\<close> while no record is
  stored. The response of Create, Read, Update and Delete carries the state and the
  diagnostics.
\<close>

record tf_State =
  Raw :: "secretsDataSourceModel option"

record response =
  State :: tf_State
  Diagnostics :: "diagnostic list"

text \<open>
  An \<^verbatim>\<open>ecdsa.PrivateKey\<close> embeds its public key; the resource reads
  \<^verbatim>\<open>validatorKey.PublicKey\<close> and nothing else of it.
\<close>

record 'pub ecdsa_PrivateKey =
  PublicKey :: 'pub
  D :: int

subsection \<open>The external collaborators\<close>

text \<open>
  The functions of \<^verbatim>\<open>polygon-edge/crypto\<close>, \<^verbatim>\<open>polygon-edge/network\<close>,
  \<^verbatim>\<open>go-libp2p/core/peer\<close> and the framework that Create calls are not part of this
  repository. They are parameters of the model. A generator takes no argument and draws
  fresh randomness, so what it returns in one invocation of Create is a value; a
  derivation is a function of its argument. A call that returns a non-nil error is
  \<open>Inl\<close> of the error. Byte slices are strings (\<^verbatim>\<open>string(bytes)\<close> is the identity).
  \<^verbatim>\<open>State_Set_diags\<close> is what the conversion inside \<^verbatim>\<open>State.Set\<close> reports for a value.
\<close>

record ('pub, 'bls, 'net, 'pid, 'addr) collaborators =
  GenerateAndEncodeECDSAPrivateKey :: "go_error + ('pub ecdsa_PrivateKey \<times> string)"
  GenerateAndEncodeBLSSecretKey :: "go_error + ('bls \<times> string)"
  BLSSecretKeyToPubkeyBytes :: "'bls \<Rightarrow> go_error + string"
  GenerateAndEncodeLibp2pKey :: "go_error + ('net \<times> string)"
  IDFromPrivateKey :: "'net \<Rightarrow> go_error + 'pid"
  ID_String :: "'pid \<Rightarrow> string"
  PubKeyToAddress :: "'pub \<Rightarrow> 'addr"
  Address_String :: "'addr \<Rightarrow> string"
  State_Set_diags :: "secretsDataSourceModel \<Rightarrow> diagnostic list"

text \<open>
  \<^verbatim>\<open>State.Set(ctx, val)\<close> of the framework: it converts the value, returns the
  diagnostics of the conversion, and replaces the raw state only when they hold no error.
\<close>

definition State_Set ::
  "(secretsDataSourceModel \<Rightarrow> diagnostic list) \<Rightarrow> tf_State \<Rightarrow> secretsDataSourceModel
     \<Rightarrow> diagnostic list \<times> tf_State" where
  "State_Set conv s val =
     (let diags = conv val
      in if HasError diags then (diags, s) else (diags, s\<lparr>Raw := Some val\<rparr>))"

subsection \<open>Observable calls\<close>

text \<open>
  The six steps of Create in the words of the specification, and the events a method
  leaves behind: an attempted step, the state write, a debug message of \<^verbatim>\<open>tflog\<close>.
\<close>

datatype step = SigningKey | BLSKey | BLSPubkeyDerivation | NetworkKey | NodeIDDerivation
  | AddressDerivation

datatype event = Attempt step | WriteState | Debug string

subsection \<open>Metadata and Schema\<close>

record MetadataRequest =
  ProviderTypeName :: string

record MetadataResponse =
  TypeName :: string

definition Metadata :: "MetadataRequest \<Rightarrow> MetadataResponse \<Rightarrow> MetadataResponse" where
  "Metadata req resp = resp\<lparr>TypeName := ProviderTypeName req @ ''_secrets''\<rparr>"

text \<open>
  \<^verbatim>\<open>schema.StringAttribute\<close>: the flags a literal does not set are false. The
  attribute map of the schema is an association list with the keys of the literal.
\<close>

record StringAttribute =
  Required :: bool
  Optional :: bool
  Computed :: bool
  Sensitive :: bool
  Description :: string

record schema =
  Version :: int
  Attributes :: "(string \<times> StringAttribute) list"

record SchemaResponse =
  RespSchema :: schema

definition Schema :: "'req \<Rightarrow> SchemaResponse \<Rightarrow> SchemaResponse" where
  "Schema req resp = resp\<lparr>RespSchema := \<lparr>
     Version = 1,
     Attributes = [
       (''validator_key_encoded'', \<lparr>Required = False, Optional = False,
          Computed = True, Sensitive = True,
          Description = ''Encoded validator key. Must be stored in a polygon-edge supported secrets manager.''\<rparr>),
       (''validator_bls_key_encoded'', \<lparr>Required = False, Optional = False,
          Computed = True, Sensitive = True,
          Description = ''Encoded validator BLS key. Must be stored in a polygon-edge supported secrets manager.''\<rparr>),
       (''network_key_encoded'', \<lparr>Required = False, Optional = False,
          Computed = True, Sensitive = True,
          Description = ''Encoded network key. Must be stored in a polygon-edge supported secrets manager.''\<rparr>),
       (''address'', \<lparr>Required = False, Optional = False,
          Computed = True, Sensitive = False,
          Description = ''Validator address.''\<rparr>),
       (''bls_pubkey'', \<lparr>Required = False, Optional = False,
          Computed = True, Sensitive = False,
          Description = ''Validator public key.''\<rparr>),
       (''node_id'', \<lparr>Required = False, Optional = False,
          Computed = True, Sensitive = False,
          Description = ''Node ID.''\<rparr>)]\<rparr>\<rparr>"

subsection \<open>Create\<close>

text \<open>
  Create, statement by statement. Each \<^verbatim>\<open>if err != nil\<close> is the \<open>Inl\<close> branch of
  the call before it: it adds the error diagnostic and returns. The struct literal
  evaluates its fields in the order written, so \<^verbatim>\<open>crypto.PubKeyToAddress\<close> is called
  after the node identifier has been derived and before \<^verbatim>\<open>State.Set\<close>. The request is
  the blank parameter of the source. The final \<^verbatim>\<open>if resp.Diagnostics.HasError()\<close>
  returns in both branches.
\<close>

definition Create ::
  "('pub, 'bls, 'net, 'pid, 'addr) collaborators \<Rightarrow> 'req \<Rightarrow> response \<Rightarrow> event list
     \<Rightarrow> event list \<times> response" where
  "Create env req resp tr =
    (let tr1 = tr @ [Attempt SigningKey] in
     case GenerateAndEncodeECDSAPrivateKey env of
       Inl err \<Rightarrow>
         (tr1, resp\<lparr>Diagnostics :=
            AddError (Diagnostics resp) ''Unable to generate ECDSA key'' (Error err)\<rparr>)
     | Inr (validatorKey, validatorKeyEncoded) \<Rightarrow>
    (let tr2 = tr1 @ [Attempt BLSKey] in
     case GenerateAndEncodeBLSSecretKey env of
       Inl err \<Rightarrow>
         (tr2, resp\<lparr>Diagnostics :=
            AddError (Diagnostics resp) ''Unable to create generate BLS ket'' (Error err)\<rparr>)
     | Inr (blsSecretKey, blsSecretKeyEncoded) \<Rightarrow>
    (let tr3 = tr2 @ [Attempt BLSPubkeyDerivation] in
     case BLSSecretKeyToPubkeyBytes env blsSecretKey of
       Inl err \<Rightarrow>
         (tr3, resp\<lparr>Diagnostics :=
            AddError (Diagnostics resp) ''Unable to get BLS public key'' (Error err)\<rparr>)
     | Inr pubkeyBytes \<Rightarrow>
    (let tr4 = tr3 @ [Attempt NetworkKey] in
     case GenerateAndEncodeLibp2pKey env of
       Inl err \<Rightarrow>
         (tr4, resp\<lparr>Diagnostics :=
            AddError (Diagnostics resp) ''Unable to generate network key'' (Error err)\<rparr>)
     | Inr (libp2pKey, libp2pKeyEncoded) \<Rightarrow>
    (let tr5 = tr4 @ [Attempt NodeIDDerivation] in
     case IDFromPrivateKey env libp2pKey of
       Inl err \<Rightarrow>
         (tr5, resp\<lparr>Diagnostics :=
            AddError (Diagnostics resp) ''Unable to get nodeID'' (Error err)\<rparr>)
     | Inr nodeID \<Rightarrow>
    (let tr6 = tr5 @ [Attempt AddressDerivation];
         val = \<lparr>ValidatorKeyEncoded = StringValue validatorKeyEncoded,
                ValidatorBLSKeyEncoded = StringValue blsSecretKeyEncoded,
                NetworkKeyEncoded = StringValue libp2pKeyEncoded,
                Address = StringValue
                  (Address_String env (PubKeyToAddress env (PublicKey validatorKey))),
                BLSPubkey = StringValue pubkeyBytes,
                NodeID = StringValue (ID_String env nodeID)\<rparr>;
         tr7 = tr6 @ [WriteState];
         (diags, st) = State_Set (State_Set_diags env) (State resp) val;
         resp' = resp\<lparr>State := st, Diagnostics := Append (Diagnostics resp) diags\<rparr>
     in if HasError (Diagnostics resp') then (tr7, resp') else (tr7, resp')))))))"

subsection \<open>Read, Update, Delete\<close>

text \<open>
  Read and Delete write one debug message and touch nothing else; Update has an empty
  body.
\<close>

definition Read :: "'req \<Rightarrow> response \<Rightarrow> event list \<Rightarrow> event list \<times> response" where
  "Read request response tr = (tr @ [Debug ''Reading secrets from state''], response)"

definition Update :: "'req \<Rightarrow> response \<Rightarrow> event list \<Rightarrow> event list \<times> response" where
  "Update request response tr = (tr, response)"

definition Delete :: "'req \<Rightarrow> response \<Rightarrow> event list \<Rightarrow> event list \<times> response" where
  "Delete request response tr = (tr @ [Debug ''Removing secrets from state''], response)"

subsection \<open>Notions used to state the properties\<close>

text \<open>
  A step fails when its call returns an error; a derivation is applied to the key that
  the generation before it returned, so it cannot fail when that generation did. The
  address derivation returns no error. The first failing step is the first one, in the
  order of the calls, that fails.
\<close>

fun fails :: "('pub, 'bls, 'net, 'pid, 'addr) collaborators \<Rightarrow> step \<Rightarrow> bool" where
  "fails env SigningKey = isl (GenerateAndEncodeECDSAPrivateKey env)"
| "fails env BLSKey = isl (GenerateAndEncodeBLSSecretKey env)"
| "fails env BLSPubkeyDerivation =
     (case GenerateAndEncodeBLSSecretKey env of
        Inl err \<Rightarrow> False
      | Inr (blsSecretKey, enc) \<Rightarrow> isl (BLSSecretKeyToPubkeyBytes env blsSecretKey))"
| "fails env NetworkKey = isl (GenerateAndEncodeLibp2pKey env)"
| "fails env NodeIDDerivation =
     (case GenerateAndEncodeLibp2pKey env of
        Inl err \<Rightarrow> False
      | Inr (libp2pKey, enc) \<Rightarrow> isl (IDFromPrivateKey env libp2pKey))"
| "fails env AddressDerivation = False"

definition step_order :: "step list" where
  "step_order =
     [SigningKey, BLSKey, BLSPubkeyDerivation, NetworkKey, NodeIDDerivation, AddressDerivation]"

definition failing_step :: "('pub, 'bls, 'net, 'pid, 'addr) collaborators \<Rightarrow> step option" where
  "failing_step env = find (fails env) step_order"

text \<open>The steps attempted when step \<open>s\<close> is the first to fail: those before it, then it.\<close>

definition attempted_upto :: "step \<Rightarrow> step list" where
  "attempted_upto s = takeWhile (\<lambda>x. x \<noteq> s) step_order @ [s]"



text \<open>A sequence of Read calls, one per request, each on the response the last one left.\<close>

fun Read_all :: "'req list \<Rightarrow> response \<Rightarrow> event list \<Rightarrow> event list \<times> response" where
  "Read_all [] response tr = (tr, response)"
| "Read_all (request # rest) response tr =
     (case Read request response tr of (tr', response') \<Rightarrow> Read_all rest response' tr')"

subsection \<open>Example runs\<close>

text \<open>
  Collaborators for which every call succeeds, and variants in which the BLS generator
  fails and in which the state write reports an error; an empty response.
\<close>

definition env_ok :: "(nat, nat, nat, string, string) collaborators" where
  "env_ok = \<lparr>
     GenerateAndEncodeECDSAPrivateKey = Inr (\<lparr>PublicKey = 7, D = 3\<rparr>, ''ecdsa-enc''),
     GenerateAndEncodeBLSSecretKey = Inr (5, ''bls-enc''),
     BLSSecretKeyToPubkeyBytes = (\<lambda>k. Inr ''bls-pub''),
     GenerateAndEncodeLibp2pKey = Inr (9, ''net-enc''),
     IDFromPrivateKey = (\<lambda>k. Inr ''peer''),
     ID_String = (\<lambda>p. ''16U'' @ p),
     PubKeyToAddress = (\<lambda>p. ''addr''),
     Address_String = (\<lambda>a. ''0x'' @ a),
     State_Set_diags = (\<lambda>v. [])\<rparr>"

definition env_bls_fails :: "(nat, nat, nat, string, string) collaborators" where
  "env_bls_fails =
     env_ok\<lparr>GenerateAndEncodeBLSSecretKey := Inl (errors_New ''no entropy'')\<rparr>"

definition env_write_fails :: "(nat, nat, nat, string, string) collaborators" where
  "env_write_fails =
     env_ok\<lparr>State_Set_diags := (\<lambda>v. [ErrorDiagnostic ''Value Conversion Error'' ''mismatch''])\<rparr>"

definition resp0 :: response where
  "resp0 = \<lparr>State = \<lparr>Raw = None\<rparr>, Diagnostics = []\<rparr>"

section \<open>Properties\<close>

subsection \<open>Diagnostics\<close>

lemma HasError_Append: "HasError (Append diags ds) = (HasError diags \<or> HasError ds)"
  by (induction ds arbitrary: diags) (auto simp: HasError_def list_ex_iff)

lemma HasError_AddError: "HasError (AddError diags summary detail)"
  by (simp add: AddError_def HasError_Append del: Append.simps) (simp add: HasError_def)

subsection \<open>Read, Update and Delete\<close>

lemma Read_all_response: "snd (Read_all requests response tr) = response"
  by (induction requests arbitrary: tr) (simp_all add: Read_def)

text \<open>
  C5. Read leaves the stored record unchanged: the response after one Read, and after any
  sequence of Read calls, is the response before them, so the state after any number of
  reads is the state after none. What Read adds is one debug message.
\<close>

theorem Read_is_noop:
  "snd (Read request response tr) = response
   \<and> fst (Read request response tr) = tr @ [Debug ''Reading secrets from state'']
   \<and> State (snd (Read_all requests response tr)) = State (snd (Read_all [] response tr))
   \<and> snd (Read_all requests response tr) = response"
  by (simp add: Read_all_response) (simp add: Read_def)

text \<open>
  C6. Update leaves the stored record unchanged for every state and every update
  request: it returns the response, and the events, as it received them.
\<close>

theorem Update_is_noop:
  "Update request response tr = (tr, response)
   \<and> State (snd (Update request response tr)) = State response"
  by (simp add: Update_def)

text \<open>
  C7. Read, Update and Delete add no diagnostic, so they report an error only if one was
  already present; Delete leaves state and diagnostics as they are and its only effect
  is the debug message that acknowledges the removal.
\<close>

theorem Read_Update_Delete_no_error:
  "Diagnostics (snd (Read request response tr)) = Diagnostics response
   \<and> Diagnostics (snd (Update request response tr)) = Diagnostics response
   \<and> Diagnostics (snd (Delete request response tr)) = Diagnostics response
   \<and> snd (Delete request response tr) = response
   \<and> fst (Delete request response tr) = tr @ [Debug ''Removing secrets from state'']"
  by (simp add: Read_def Update_def Delete_def)

subsection \<open>Schema and type name\<close>

text \<open>
  C8, as the claim states it, fails: the number of attributes marked sensitive is not
  two.
\<close>

theorem Schema_two_sensitive_counterexample:
  "length (filter (\<lambda>(name, a). Sensitive a)
     (Attributes (RespSchema (Schema () \<lparr>RespSchema = \<lparr>Version = 0, Attributes = []\<rparr>\<rparr>)))) \<noteq> 2"
  by (simp add: Schema_def)

text \<open>
  C8, amended. The schema has exactly six attributes with distinct names, each computed
  and neither required nor optional; exactly three of them, the three encoded keys, are
  sensitive; the type name is the provider type name followed by \<open>_secrets\<close>.
\<close>

theorem Schema_six_computed_three_sensitive:
  "map fst (Attributes (RespSchema (Schema req resp))) =
     [''validator_key_encoded'', ''validator_bls_key_encoded'', ''network_key_encoded'',
      ''address'', ''bls_pubkey'', ''node_id'']
   \<and> distinct (map fst (Attributes (RespSchema (Schema req resp))))
   \<and> length (Attributes (RespSchema (Schema req resp))) = 6
   \<and> map (\<lambda>(name, a). (Computed a, Required a, Optional a))
        (Attributes (RespSchema (Schema req resp))) = replicate 6 (True, False, False)
   \<and> map fst (filter (\<lambda>(name, a). Sensitive a) (Attributes (RespSchema (Schema req resp)))) =
       [''validator_key_encoded'', ''validator_bls_key_encoded'', ''network_key_encoded'']
   \<and> length (filter (\<lambda>(name, a). Sensitive a) (Attributes (RespSchema (Schema req resp)))) = 3
   \<and> TypeName (Metadata mreq mresp) = ProviderTypeName mreq @ ''_secrets''"
  by (simp add: Schema_def Metadata_def numeral_eq_Suc)

subsection \<open>Create\<close>

text \<open>
  What one invocation does, by the first failing step: the events it leaves, the response
  after a failure, and the response when the five fallible steps succeed.
\<close>

lemma fails_cases:
  "(\<exists>s. fails env s) = (failing_step env \<noteq> None)"
proof
  assume "\<exists>s. fails env s"
  then obtain s where s: "fails env s" ..
  then have "s \<in> set step_order" by (cases s) (simp_all add: step_order_def)
  with s show "failing_step env \<noteq> None"
    by (auto simp: failing_step_def find_None_iff)
next
  assume "failing_step env \<noteq> None"
  then show "\<exists>s. fails env s"
    by (auto simp: failing_step_def find_None_iff)
qed

lemma Create_trace:
  "fst (Create env req resp tr) =
     (case failing_step env of
        None \<Rightarrow> tr @ map Attempt step_order @ [WriteState]
      | Some s \<Rightarrow> tr @ map Attempt (attempted_upto s))"
  by (auto simp: Create_def failing_step_def step_order_def attempted_upto_def Let_def
      split: sum.splits prod.splits)

lemma Create_on_failure:
  assumes "failing_step env = Some s"
  shows "\<exists>summary detail. snd (Create env req resp tr) =
           resp\<lparr>Diagnostics := AddError (Diagnostics resp) summary detail\<rparr>"
  using assms
  by (auto simp: Create_def failing_step_def step_order_def Let_def
      split: sum.splits prod.splits if_splits)

lemma Create_on_success:
  assumes "failing_step env = None"
  shows "\<exists>vk vke bk bke pb nk nke nid.
           GenerateAndEncodeECDSAPrivateKey env = Inr (vk, vke)
         \<and> GenerateAndEncodeBLSSecretKey env = Inr (bk, bke)
         \<and> BLSSecretKeyToPubkeyBytes env bk = Inr pb
         \<and> GenerateAndEncodeLibp2pKey env = Inr (nk, nke)
         \<and> IDFromPrivateKey env nk = Inr nid
         \<and> snd (Create env req resp tr) =
            (let val = \<lparr>ValidatorKeyEncoded = StringValue vke,
                ValidatorBLSKeyEncoded = StringValue bke,
                NetworkKeyEncoded = StringValue nke,
                Address = StringValue (Address_String env (PubKeyToAddress env (PublicKey vk))),
                BLSPubkey = StringValue pb,
                NodeID = StringValue (ID_String env nid)\<rparr>;
                 diags = State_Set_diags env val
             in resp\<lparr>State := (if HasError diags then State resp else (State resp)\<lparr>Raw := Some val\<rparr>),
                     Diagnostics := Append (Diagnostics resp) diags\<rparr>)"
  using assms
  by (auto simp: Create_def failing_step_def step_order_def Let_def State_Set_def
      split: sum.splits prod.splits if_splits)

lemma Create_fails_SigningKey:
  assumes "failing_step env = Some SigningKey"
  shows "\<exists>err. GenerateAndEncodeECDSAPrivateKey env = Inl err
     \<and> snd (Create env req resp tr) = resp\<lparr>Diagnostics :=
          AddError (Diagnostics resp) ''Unable to generate ECDSA key'' (Error err)\<rparr>"
  using assms
  by (auto simp: Create_def failing_step_def step_order_def Let_def
      split: sum.splits prod.splits if_splits)

lemma Create_fails_BLSKey:
  assumes "failing_step env = Some BLSKey"
  shows "\<exists>err. GenerateAndEncodeBLSSecretKey env = Inl err
     \<and> snd (Create env req resp tr) = resp\<lparr>Diagnostics :=
          AddError (Diagnostics resp) ''Unable to create generate BLS ket'' (Error err)\<rparr>"
  using assms
  by (auto simp: Create_def failing_step_def step_order_def Let_def
      split: sum.splits prod.splits if_splits)

lemma Create_fails_BLSPubkeyDerivation:
  assumes "failing_step env = Some BLSPubkeyDerivation"
  shows "\<exists>err blsSecretKey enc. GenerateAndEncodeBLSSecretKey env = Inr (blsSecretKey, enc)
     \<and> BLSSecretKeyToPubkeyBytes env blsSecretKey = Inl err
     \<and> snd (Create env req resp tr) = resp\<lparr>Diagnostics :=
          AddError (Diagnostics resp) ''Unable to get BLS public key'' (Error err)\<rparr>"
  using assms
  by (auto simp: Create_def failing_step_def step_order_def Let_def
      split: sum.splits prod.splits if_splits)

lemma Create_fails_NetworkKey:
  assumes "failing_step env = Some NetworkKey"
  shows "\<exists>err. GenerateAndEncodeLibp2pKey env = Inl err
     \<and> snd (Create env req resp tr) = resp\<lparr>Diagnostics :=
          AddError (Diagnostics resp) ''Unable to generate network key'' (Error err)\<rparr>"
  using assms
  by (auto simp: Create_def failing_step_def step_order_def Let_def
      split: sum.splits prod.splits if_splits)

lemma Create_fails_NodeIDDerivation:
  assumes "failing_step env = Some NodeIDDerivation"
  shows "\<exists>err libp2pKey enc. GenerateAndEncodeLibp2pKey env = Inr (libp2pKey, enc)
     \<and> IDFromPrivateKey env libp2pKey = Inl err
     \<and> snd (Create env req resp tr) = resp\<lparr>Diagnostics :=
          AddError (Diagnostics resp) ''Unable to get nodeID'' (Error err)\<rparr>"
  using assms
  by (auto simp: Create_def failing_step_def step_order_def Let_def
      split: sum.splits prod.splits if_splits)

lemma failing_step_not_address: "failing_step env \<noteq> Some AddressDerivation"
  by (auto simp: failing_step_def step_order_def)

text \<open>
  C9. Create ignores its request: with the same collaborators, response and events, two
  requests give the same result, stored record included.
\<close>

theorem Create_ignores_request:
  "Create env req1 resp tr = Create env req2 resp tr"
  by (simp add: Create_def)

text \<open>
  C1. Create commits all or nothing. The state after Create is either the state before
  it, or a record in which each of the six fields holds a known string. If any
  generation or derivation step returns an error, the state is the state before it and
  the response holds an error diagnostic.
\<close>

theorem Create_all_or_nothing:
  assumes "Create env req resp tr = (tr', resp')"
  shows "(State resp' = State resp
          \<or> (\<exists>a b c d e f. Raw (State resp') =
               Some \<lparr>ValidatorKeyEncoded = StringValue a, ValidatorBLSKeyEncoded = StringValue b,
                     NetworkKeyEncoded = StringValue c, Address = StringValue d,
                     BLSPubkey = StringValue e, NodeID = StringValue f\<rparr>))
         \<and> ((\<exists>s. fails env s) \<longrightarrow> State resp' = State resp \<and> HasError (Diagnostics resp'))"
proof (cases "failing_step env")
  case None
  from Create_on_success [OF None, of req resp tr] assms
  show ?thesis
    unfolding fails_cases using None
    by (auto simp: Let_def split: if_splits)
next
  case (Some s)
  from Create_on_failure [OF Some, of req resp tr] assms
  show ?thesis
    by (auto simp: HasError_AddError)
qed

theorem Create_all_or_nothing_witness:
  "fails env_bls_fails BLSKey
   \<and> State (snd (Create env_bls_fails () resp0 [])) = State resp0
   \<and> HasError (Diagnostics (snd (Create env_bls_fails () resp0 [])))"
proof -
  have f: "fails env_bls_fails BLSKey"
    by (simp add: env_bls_fails_def env_ok_def)
  then have "\<exists>s. fails env_bls_fails s" ..
  with Create_all_or_nothing [OF surjective_pairing, of env_bls_fails "()" resp0 "[]"] f
  show ?thesis by blast
qed



text \<open>
  C3. The events of Create follow the order signing key, BLS key, BLS public key
  derivation, network key, node identifier derivation, address derivation, and then the
  state write. When a step fails, the events are the steps before it and the failing
  step itself: nothing after it is attempted.
\<close>

theorem Create_step_order:
  "(failing_step env = None \<longrightarrow>
      fst (Create env req resp tr) = tr @ map Attempt step_order @ [WriteState])
   \<and> (\<forall>s. failing_step env = Some s \<longrightarrow>
      fst (Create env req resp tr) = tr @ map Attempt (attempted_upto s))"
  by (simp add: Create_trace)

theorem Create_step_order_witness:
  "failing_step env_ok = None
   \<and> fst (Create env_ok () resp0 []) =
       [Attempt SigningKey, Attempt BLSKey, Attempt BLSPubkeyDerivation, Attempt NetworkKey,
        Attempt NodeIDDerivation, Attempt AddressDerivation, WriteState]
   \<and> failing_step env_bls_fails = Some BLSKey
   \<and> fst (Create env_bls_fails () resp0 []) = [Attempt SigningKey, Attempt BLSKey]"
proof -
  have a: "failing_step env_ok = None"
    by (simp add: failing_step_def step_order_def env_ok_def)
  have b: "failing_step env_bls_fails = Some BLSKey"
    by (simp add: failing_step_def step_order_def env_bls_fails_def env_ok_def)
  from Create_step_order [of env_ok "()" resp0 "[]"] a
  have "fst (Create env_ok () resp0 []) = [] @ map Attempt step_order @ [WriteState]"
    by blast
  moreover from Create_step_order [of env_bls_fails "()" resp0 "[]"] b
  have "fst (Create env_bls_fails () resp0 []) = [] @ map Attempt (attempted_upto BLSKey)"
    by blast
  ultimately show ?thesis
    using a b by (simp add: step_order_def attempted_upto_def)
qed

text \<open>
  C4, as the claim states it, fails: with collaborators for which none of the five
  fallible steps fails, Create still ends with an error diagnostic when the state write
  reports one.
\<close>

theorem Create_fails_only_write_counterexample:
  "failing_step env_write_fails = None
   \<and> (\<forall>s. \<not> fails env_write_fails s)
   \<and> HasError (Diagnostics (snd (Create env_write_fails () resp0 [])))"
proof -
  have a: "failing_step env_write_fails = None"
    by (simp add: failing_step_def step_order_def env_write_fails_def env_ok_def)
  then have b: "\<forall>s. \<not> fails env_write_fails s"
    using fails_cases [of env_write_fails] by simp
  have c: "HasError (Diagnostics (snd (Create env_write_fails () resp0 [])))"
    by (simp add: Create_def env_write_fails_def env_ok_def resp0_def State_Set_def HasError_def)
  from a b c show ?thesis by simp
qed

text \<open>
  C4, amended. When one of the five fallible steps fails, Create fails: the first
  failing step ends the invocation (no later step is attempted, the state is untouched)
  and the diagnostic added carries the message of that step and the text of its error.
  When none of the five fails, Create fails only if the response already held an error
  or the final state write reports one.
\<close>

theorem Create_failure_taxonomy:
  assumes "Create env req resp tr = (tr', resp')"
  shows "(\<forall>s. failing_step env = Some s \<longrightarrow>
            HasError (Diagnostics resp') \<and> State resp' = State resp
          \<and> tr' = tr @ map Attempt (attempted_upto s))
       \<and> (failing_step env = Some SigningKey \<longrightarrow>
            (\<exists>err. GenerateAndEncodeECDSAPrivateKey env = Inl err
              \<and> Diagnostics resp' =
                  AddError (Diagnostics resp) ''Unable to generate ECDSA key'' (Error err)))
       \<and> (failing_step env = Some BLSKey \<longrightarrow>
            (\<exists>err. GenerateAndEncodeBLSSecretKey env = Inl err
              \<and> Diagnostics resp' =
                  AddError (Diagnostics resp) ''Unable to create generate BLS ket'' (Error err)))
       \<and> (failing_step env = Some BLSPubkeyDerivation \<longrightarrow>
            (\<exists>err blsSecretKey enc.
                GenerateAndEncodeBLSSecretKey env = Inr (blsSecretKey, enc)
              \<and> BLSSecretKeyToPubkeyBytes env blsSecretKey = Inl err
              \<and> Diagnostics resp' =
                  AddError (Diagnostics resp) ''Unable to get BLS public key'' (Error err)))
       \<and> (failing_step env = Some NetworkKey \<longrightarrow>
            (\<exists>err. GenerateAndEncodeLibp2pKey env = Inl err
              \<and> Diagnostics resp' =
                  AddError (Diagnostics resp) ''Unable to generate network key'' (Error err)))
       \<and> (failing_step env = Some NodeIDDerivation \<longrightarrow>
            (\<exists>err libp2pKey enc.
                GenerateAndEncodeLibp2pKey env = Inr (libp2pKey, enc)
              \<and> IDFromPrivateKey env libp2pKey = Inl err
              \<and> Diagnostics resp' =
                  AddError (Diagnostics resp) ''Unable to get nodeID'' (Error err)))
       \<and> (failing_step env = None \<longrightarrow>
            (\<exists>val. Diagnostics resp' = Append (Diagnostics resp) (State_Set_diags env val)
              \<and> (HasError (Diagnostics resp') \<longleftrightarrow>
                   HasError (Diagnostics resp) \<or> HasError (State_Set_diags env val))
              \<and> (\<not> HasError (State_Set_diags env val) \<longrightarrow> Raw (State resp') = Some val)))"
proof -
  from assms have tr': "tr' = fst (Create env req resp tr)"
    and resp': "resp' = snd (Create env req resp tr)" by simp_all
  have short: "\<forall>s. failing_step env = Some s \<longrightarrow>
            HasError (Diagnostics resp') \<and> State resp' = State resp
          \<and> tr' = tr @ map Attempt (attempted_upto s)"
  proof (intro allI impI)
    fix s assume s: "failing_step env = Some s"
    from Create_on_failure [OF s, of req resp tr] resp'
    have "HasError (Diagnostics resp') \<and> State resp' = State resp"
      by (auto simp: HasError_AddError)
    moreover from s have "tr' = tr @ map Attempt (attempted_upto s)"
      by (simp add: tr' Create_trace)
    ultimately show "HasError (Diagnostics resp') \<and> State resp' = State resp
          \<and> tr' = tr @ map Attempt (attempted_upto s)" by simp
  qed
  have s1: "failing_step env = Some SigningKey \<longrightarrow>
            (\<exists>err. GenerateAndEncodeECDSAPrivateKey env = Inl err
              \<and> Diagnostics resp' =
                  AddError (Diagnostics resp) ''Unable to generate ECDSA key'' (Error err))"
    using Create_fails_SigningKey [of env req resp tr] resp' by auto
  have s2: "failing_step env = Some BLSKey \<longrightarrow>
            (\<exists>err. GenerateAndEncodeBLSSecretKey env = Inl err
              \<and> Diagnostics resp' =
                  AddError (Diagnostics resp) ''Unable to create generate BLS ket'' (Error err))"
    using Create_fails_BLSKey [of env req resp tr] resp' by auto
  have s3: "failing_step env = Some BLSPubkeyDerivation \<longrightarrow>
            (\<exists>err blsSecretKey enc.
                GenerateAndEncodeBLSSecretKey env = Inr (blsSecretKey, enc)
              \<and> BLSSecretKeyToPubkeyBytes env blsSecretKey = Inl err
              \<and> Diagnostics resp' =
                  AddError (Diagnostics resp) ''Unable to get BLS public key'' (Error err))"
    using Create_fails_BLSPubkeyDerivation [of env req resp tr] resp' by auto
  have s4: "failing_step env = Some NetworkKey \<longrightarrow>
            (\<exists>err. GenerateAndEncodeLibp2pKey env = Inl err
              \<and> Diagnostics resp' =
                  AddError (Diagnostics resp) ''Unable to generate network key'' (Error err))"
    using Create_fails_NetworkKey [of env req resp tr] resp' by auto
  have s5: "failing_step env = Some NodeIDDerivation \<longrightarrow>
            (\<exists>err libp2pKey enc.
                GenerateAndEncodeLibp2pKey env = Inr (libp2pKey, enc)
              \<and> IDFromPrivateKey env libp2pKey = Inl err
              \<and> Diagnostics resp' =
                  AddError (Diagnostics resp) ''Unable to get nodeID'' (Error err))"
    using Create_fails_NodeIDDerivation [of env req resp tr] resp' by auto
  have s6: "failing_step env = None \<longrightarrow>
            (\<exists>val. Diagnostics resp' = Append (Diagnostics resp) (State_Set_diags env val)
              \<and> (HasError (Diagnostics resp') \<longleftrightarrow>
                   HasError (Diagnostics resp) \<or> HasError (State_Set_diags env val))
              \<and> (\<not> HasError (State_Set_diags env val) \<longrightarrow> Raw (State resp') = Some val))"
  proof
    assume n: "failing_step env = None"
    from Create_on_success [OF n, of req resp tr] resp'
    obtain val where "resp' =
       resp\<lparr>State := (if HasError (State_Set_diags env val) then State resp
                        else (State resp)\<lparr>Raw := Some val\<rparr>),
             Diagnostics := Append (Diagnostics resp) (State_Set_diags env val)\<rparr>"
      unfolding Let_def by auto
    then show "\<exists>val. Diagnostics resp' = Append (Diagnostics resp) (State_Set_diags env val)
              \<and> (HasError (Diagnostics resp') \<longleftrightarrow>
                   HasError (Diagnostics resp) \<or> HasError (State_Set_diags env val))
              \<and> (\<not> HasError (State_Set_diags env val) \<longrightarrow> Raw (State resp') = Some val)"
      by (intro exI [of _ val]) (simp add: HasError_Append)
  qed
  from short s1 s2 s3 s4 s5 s6 show ?thesis by blast
qed

theorem Create_failure_taxonomy_witness:
  "failing_step env_bls_fails = Some BLSKey
   \<and> HasError (Diagnostics (snd (Create env_bls_fails () resp0 [])))
   \<and> State (snd (Create env_bls_fails () resp0 [])) = State resp0
   \<and> Diagnostics (snd (Create env_bls_fails () resp0 [])) =
       [ErrorDiagnostic ''Unable to create generate BLS ket'' ''no entropy'']"
proof -
  have b: "failing_step env_bls_fails = Some BLSKey"
    by (simp add: failing_step_def step_order_def env_bls_fails_def env_ok_def)
  have g: "GenerateAndEncodeBLSSecretKey env_bls_fails = Inl (errors_New ''no entropy'')"
    by (simp add: env_bls_fails_def)
  note t = Create_failure_taxonomy [OF surjective_pairing, of env_bls_fails "()" resp0 "[]"]
  from t b have "HasError (Diagnostics (snd (Create env_bls_fails () resp0 [])))
      \<and> State (snd (Create env_bls_fails () resp0 [])) = State resp0"
    by blast
  moreover from t b g have "Diagnostics (snd (Create env_bls_fails () resp0 [])) =
      AddError (Diagnostics resp0) ''Unable to create generate BLS ket''
        (Error (errors_New ''no entropy''))"
    by auto
  ultimately show ?thesis
    using b by (simp add: AddError_def resp0_def)
qed

text \<open>
  C10. When the five generation and derivation steps have all succeeded, Create makes
  the state write, and the diagnostics of that write are appended to the response. If
  they hold an error, the response holds an error and the state is left as it was;
  otherwise the record is stored. The write is thus a sixth point at which Create can
  fail.
\<close>

theorem Create_state_write_failure:
  assumes "Create env req resp tr = (tr', resp')"
    and "failing_step env = None"
  shows "\<exists>val diags. diags = State_Set_diags env val
         \<and> tr' = tr @ map Attempt step_order @ [WriteState]
         \<and> Diagnostics resp' = Append (Diagnostics resp) diags
         \<and> (HasError diags \<longrightarrow> HasError (Diagnostics resp') \<and> State resp' = State resp)
         \<and> (\<not> HasError diags \<longrightarrow> Raw (State resp') = Some val)"
proof -
  from assms(1) have tr': "tr' = fst (Create env req resp tr)"
    and resp': "resp' = snd (Create env req resp tr)" by simp_all
  from Create_on_success [OF assms(2), of req resp tr] resp'
  obtain val where "resp' =
       resp\<lparr>State := (if HasError (State_Set_diags env val) then State resp
                        else (State resp)\<lparr>Raw := Some val\<rparr>),
             Diagnostics := Append (Diagnostics resp) (State_Set_diags env val)\<rparr>"
    unfolding Let_def by auto
  moreover from assms(2) have "tr' = tr @ map Attempt step_order @ [WriteState]"
    by (simp add: tr' Create_trace)
  ultimately show ?thesis
    by (intro exI [of _ val] exI [of _ "State_Set_diags env val"]) (simp add: HasError_Append)
qed

theorem Create_state_write_failure_witness:
  "failing_step env_write_fails = None
   \<and> HasError (Diagnostics (snd (Create env_write_fails () resp0 [])))
   \<and> State (snd (Create env_write_fails () resp0 [])) = State resp0
   \<and> Diagnostics (snd (Create env_write_fails () resp0 [])) =
       [ErrorDiagnostic ''Value Conversion Error'' ''mismatch'']"
proof -
  have a: "failing_step env_write_fails = None"
    by (simp add: failing_step_def step_order_def env_write_fails_def env_ok_def)
  have d: "\<And>val. State_Set_diags env_write_fails val =
      [ErrorDiagnostic ''Value Conversion Error'' ''mismatch'']"
    by (simp add: env_write_fails_def)
  from Create_state_write_failure [OF surjective_pairing a, of "()" resp0 "[]"]
  have "HasError [ErrorDiagnostic ''Value Conversion Error'' ''mismatch''] \<longrightarrow>
      HasError (Diagnostics (snd (Create env_write_fails () resp0 [])))
      \<and> State (snd (Create env_write_fails () resp0 [])) = State resp0"
    and "Diagnostics (snd (Create env_write_fails () resp0 [])) =
      Append (Diagnostics resp0) [ErrorDiagnostic ''Value Conversion Error'' ''mismatch'']"
    unfolding d by auto
  then show ?thesis
    using a by (simp add: HasError_def resp0_def)
qed

end
